theory Spec2Isabelle
  imports Complex_Main
begin

section \<open>JavaScript values used by \<^verbatim>\<open>src/src/App.js\<close>\<close>

text \<open>
  A JavaScript string is a sequence of UTF-16 code units; \<open>length\<close>, \<open>slice\<close>,
  \<open>endsWith\<close> and a regular expression without the \<open>u\<close> flag all count code units.
  A code unit is modelled by its numeric value.
\<close>

type_synonym jschar = nat
type_synonym jsstring = "jschar list"

definition js :: "string \<Rightarrow> jsstring" where
  \<comment> \<open>an ASCII literal of the source as a list of code units\<close>
  "js s = map of_char s"

text \<open>
  A JavaScript number is an IEEE double: a finite value, one of the two infinities,
  or NaN. Only comparisons with integer constants are made on numbers here, and these
  are exact on doubles, so a finite double is modelled by the real number it denotes.
\<close>

datatype jsnum = Finite real | PosInfinity | NegInfinity | NaN

fun js_lt :: "jsnum \<Rightarrow> jsnum \<Rightarrow> bool" where
  \<comment> \<open>the operator \<open><\<close> on numbers: false as soon as one side is NaN\<close>
  "js_lt NaN _ = False"
| "js_lt _ NaN = False"
| "js_lt (Finite x) (Finite y) = (x < y)"
| "js_lt (Finite _) PosInfinity = True"
| "js_lt (Finite _) NegInfinity = False"
| "js_lt PosInfinity _ = False"
| "js_lt NegInfinity NegInfinity = False"
| "js_lt NegInfinity _ = True"

fun js_le :: "jsnum \<Rightarrow> jsnum \<Rightarrow> bool" where
  \<comment> \<open>the operator \<open><=\<close> on numbers\<close>
  "js_le NaN _ = False"
| "js_le _ NaN = False"
| "js_le (Finite x) (Finite y) = (x \<le> y)"
| "js_le (Finite _) PosInfinity = True"
| "js_le (Finite _) NegInfinity = False"
| "js_le PosInfinity PosInfinity = True"
| "js_le PosInfinity _ = False"
| "js_le NegInfinity _ = True"

section \<open>The Beaufort conversion\<close>

text \<open>
  \<^verbatim>\<open>kmhToBeaufort\<close> (App.js, lines 477-492). The argument is a number or nullish:
  \<open>None\<close> stands for \<open>null\<close> and for \<open>undefined\<close>, which the test \<open>kmh == null\<close>
  does not tell apart. The result is \<open>None\<close> for the returned \<open>null\<close>.
\<close>

definition kmhToBeaufort :: "jsnum option \<Rightarrow> int option" where
  "kmhToBeaufort kmh =
     (case kmh of
        None \<Rightarrow> None
      | Some k \<Rightarrow>
          Some (if js_lt k (Finite 1) then 0
                else if js_le k (Finite 5) then 1
                else if js_le k (Finite 11) then 2
                else if js_le k (Finite 19) then 3
                else if js_le k (Finite 28) then 4
                else if js_le k (Finite 38) then 5
                else if js_le k (Finite 49) then 6
                else if js_le k (Finite 61) then 7
                else if js_le k (Finite 74) then 8
                else if js_le k (Finite 88) then 9
                else if js_le k (Finite 102) then 10
                else if js_le k (Finite 117) then 11
                else 12))"

section \<open>Regular expressions of the source\<close>

text \<open>
  \<open>String.prototype.match\<close> and \<open>RegExp.prototype.test\<close> try the pattern at every
  start position from the left (the end of the string included) and stop at the first
  success. \<open>regex_search here prev i s\<close> does this for a pattern given by its matcher
  at one position, \<open>here\<close>, which also receives the code unit before the position
  (for a lookbehind; \<open>None\<close> at the start of the string).
\<close>

definition isLineTerminator :: "jschar \<Rightarrow> bool" where
  \<comment> \<open>LF, CR, LS, PS: the code units the pattern \<open>.\<close> does not match\<close>
  "isLineTerminator c = (c = 10 \<or> c = 13 \<or> c = 8232 \<or> c = 8233)"

fun regex_search :: "(jschar option \<Rightarrow> jsstring \<Rightarrow> 'm option) \<Rightarrow> jschar option \<Rightarrow> nat \<Rightarrow> jsstring
    \<Rightarrow> (nat \<times> 'm) option" where
  "regex_search here prev i [] = map_option (Pair i) (here prev [])"
| "regex_search here prev i (c # cs) =
     (case here prev (c # cs) of
        Some m \<Rightarrow> Some (i, m)
      | None \<Rightarrow> regex_search here (Some c) (Suc i) cs)"

text \<open>
  The lazy group \<open>(.+?)\<close>: one code unit that is no line terminator, then the
  shortest extension after which the rest of the pattern, \<open>k\<close>, matches. \<open>k\<close> receives
  the last code unit of the group and the text after it.
\<close>

fun lazy_dots :: "(jschar \<Rightarrow> jsstring \<Rightarrow> bool) \<Rightarrow> jsstring \<Rightarrow> jsstring option" where
  "lazy_dots k [] = None"
| "lazy_dots k (c # cs) =
     (if isLineTerminator c then None
      else if k c cs then Some [c]
      else map_option ((#) c) (lazy_dots k cs))"

text \<open>The match object: \<open>match.index\<close>, \<open>match[0]\<close> and \<open>match[1]\<close>.\<close>

record regmatch =
  index :: nat
  m0 :: jsstring
  m1 :: jsstring

text \<open>
  \<^verbatim>\<open>/\*\*(.+?)\*\*/\<close> (line 78); 42 is the code unit of the asterisk.
\<close>

definition bold_close :: "jschar \<Rightarrow> jsstring \<Rightarrow> bool" where
  "bold_close c r = (take 2 r = [42, 42])"

fun bold_at :: "jschar option \<Rightarrow> jsstring \<Rightarrow> (jsstring \<times> jsstring) option" where
  "bold_at prev (a # b # rest) =
     (if a = 42 \<and> b = 42 then
        (case lazy_dots bold_close rest of
           Some g \<Rightarrow> Some ([42, 42] @ g @ [42, 42], g)
         | None \<Rightarrow> None)
      else None)"
| "bold_at prev _ = None"

text \<open>
  \<^verbatim>\<open>/(?<!\*)\*(?!\*)(.+?)(?<!\*)\*(?!\*)/\<close> (line 79): an asterisk with no asterisk
  before or after it, the lazy group, and again such an asterisk. The lookbehind of the
  closing asterisk looks at the last code unit of the group.
\<close>

fun italic_close :: "jschar \<Rightarrow> jsstring \<Rightarrow> bool" where
  "italic_close c [] = False"
| "italic_close c [d] = (c \<noteq> 42 \<and> d = 42)"
| "italic_close c (d # e # _) = (c \<noteq> 42 \<and> d = 42 \<and> e \<noteq> 42)"

fun italic_at :: "jschar option \<Rightarrow> jsstring \<Rightarrow> (jsstring \<times> jsstring) option" where
  "italic_at prev [] = None"
| "italic_at prev (a # rest) =
     (if prev \<noteq> Some 42 \<and> a = 42 \<and> (case rest of [] \<Rightarrow> True | b # _ \<Rightarrow> b \<noteq> 42) then
        (case lazy_dots italic_close rest of
           Some g \<Rightarrow> Some ([42] @ g @ [42], g)
         | None \<Rightarrow> None)
      else None)"

definition to_match :: "(nat \<times> jsstring \<times> jsstring) option \<Rightarrow> regmatch option" where
  "to_match r = map_option (\<lambda>(i, a, g). \<lparr>index = i, m0 = a, m1 = g\<rparr>) r"

definition boldMatch :: "jsstring \<Rightarrow> regmatch option" where
  "boldMatch remaining = to_match (regex_search bold_at None 0 remaining)"

definition italicMatch :: "jsstring \<Rightarrow> regmatch option" where
  "italicMatch remaining = to_match (regex_search italic_at None 0 remaining)"

section \<open>\<^verbatim>\<open>renderInlineFormatting\<close> (App.js, lines 69-127)\<close>

datatype fmt = Bold | Italic

fun pick_match :: "regmatch option \<Rightarrow> regmatch option \<Rightarrow> (fmt \<times> regmatch) option" where
  "pick_match (Some b) (Some i) = (if index b \<le> index i then Some (Bold, b) else Some (Italic, i))"
| "pick_match (Some b) None = Some (Bold, b)"
| "pick_match None (Some i) = Some (Italic, i)"
| "pick_match None None = None"

text \<open>
  The React elements pushed on \<open>parts\<close>, each with its \<open>key\<close> and its text. The state
  of the while loop is \<open>remaining\<close>, \<open>parts\<close> and \<open>key\<close>; \<open>render_step\<close> is one run of
  the loop body: \<open>Inl\<close> after the \<open>break\<close>, \<open>Inr\<close> with the next state otherwise.
  The loop itself may, as far as its definition goes, run forever: \<open>render_loop\<close>
  returns \<open>None\<close> when it does.
\<close>

datatype part = Span nat jsstring | Strong nat jsstring | Em nat jsstring

record loop_state =
  remaining :: jsstring
  parts :: "part list"
  key :: nat

definition render_step :: "loop_state \<Rightarrow> part list + loop_state" where
  "render_step s =
     (case pick_match (boldMatch (remaining s)) (italicMatch (remaining s)) of
        Some (type, m) \<Rightarrow>
          (let beforeText = take (index m) (remaining s);
               s1 = (if beforeText \<noteq> [] then s\<lparr>parts := parts s @ [Span (key s) beforeText], key := key s + 1\<rparr> else s);
               s2 = (if type = Bold
                     then s1\<lparr>parts := parts s1 @ [Strong (key s1) (m1 m)], key := key s1 + 1\<rparr>
                     else s1\<lparr>parts := parts s1 @ [Em (key s1) (m1 m)], key := key s1 + 1\<rparr>)
           in Inr (s2\<lparr>remaining := drop (index m + length (m0 m)) (remaining s)\<rparr>))
      | None \<Rightarrow> Inl (parts s @ [Span (key s) (remaining s)]))"

partial_function (option) render_loop :: "loop_state \<Rightarrow> part list option" where
  "render_loop s =
     (if length (remaining s) > 0 then
        (case render_step s of
           Inr s' \<Rightarrow> render_loop s'
         | Inl ps \<Rightarrow> Some ps)
      else Some (parts s))"

declare render_loop.simps [code]

datatype rendered = RNull | RParts "part list" | RText jsstring

definition renderInlineFormatting :: "jsstring \<Rightarrow> rendered option" where
  "renderInlineFormatting text =
     (if text = [] then Some RNull
      else map_option (\<lambda>ps. if length ps > 0 then RParts ps else RText text)
             (render_loop \<lparr>remaining = text, parts = [], key = 0\<rparr>))"

section \<open>Component state, host functions and the backend\<close>

text \<open>
  The state of the \<open>Chatbot\<close> component (lines 130-137) and the messages of the
  conversation. A message built by the source has a \<open>role\<close> and a \<open>text\<close>, and some
  have \<open>isError\<close> or \<open>mode\<close>; an absent property is \<open>None\<close>.
\<close>

datatype role = User | Assistant | System

record message =
  role :: role
  mtext :: jsstring
  isError :: "bool option"
  mode :: "jsstring option"

record health =
  status :: jsstring
  health_message :: "jsstring option"

record app =
  messages :: "message list"
  inputValue :: jsstring
  uploadedFile :: "jsstring option"
  isUploading :: bool
  isThinking :: bool
  systemHealth :: "health option"
  showHealth :: bool
  scenario :: jsstring

text \<open>
  Functions of the JavaScript runtime that the source calls and whose results are
  floating-point formatting or Unicode case mapping. They are parameters of the model:
  \<open>numToString\<close> is the conversion of a number in a template literal, \<open>circleArea r\<close>
  is \<open>Math.PI * Math.pow(r, 2)\<close>.
\<close>

record host =
  numToString :: "jsnum \<Rightarrow> jsstring"
  toFixed :: "jsnum \<Rightarrow> nat \<Rightarrow> jsstring"
  circleArea :: "jsnum \<Rightarrow> jsnum"
  toUpperCase :: "jsstring \<Rightarrow> jsstring"
  toLowerCase :: "jsstring \<Rightarrow> jsstring"

text \<open>
  The JSON objects the backend answers with, with the properties the source reads. A
  property may be missing (it then reads as \<open>undefined\<close>) or \<open>null\<close>:
  \<^item> a property read only as a condition (\<open>success\<close>, \<open>high_ground\<close>, \<open>urban_terrain\<close>) is
    its truth value, \<open>False\<close> when it is missing or \<open>null\<close>;
  \<^item> where the source treats \<open>null\<close> and \<open>undefined\<close> alike, the property is an \<open>option\<close>,
    \<open>None\<close> for both: behind a guard (\<open>!= null\<close>, \<open>||\<close>, a conditional), or when a property
    or method of it is read unguarded, which throws a \<open>TypeError\<close> on both
    (\<open>coordinates\<close>, \<open>lat\<close>, \<open>lon\<close>, \<open>terrain_data\<close>, \<open>terrain_analysis\<close>,
    \<open>cover_availability\<close>, \<open>location\<close>, \<open>models_used\<close>);
  \<^item> where the source prints the property unguarded in a template literal, which prints
    \<open>undefined\<close> and \<open>null\<close> differently, it is a \<open>jsprop\<close> (\<open>error\<close>, \<open>country_code\<close>,
    \<open>radius_km\<close>, \<open>data.scenario\<close>, \<open>strategy\<close>).
  A property that is present has the type the source uses it at. For the answers of
  \<open>/chat\<close> and \<open>/upload\<close>, the properties read after a success (\<open>response\<close>, \<open>details\<close>)
  are required. \<open>data_scenario\<close> and \<open>data_mode\<close> are \<open>data.scenario\<close> and \<open>data.mode\<close>.
\<close>

datatype 'a jsprop = Undefined | Null | Val 'a

record reply_head =
  success :: bool
  error :: "jsstring jsprop"

record coordinates =
  lat :: "jsnum option"
  lon :: "jsnum option"

record terrain_analysis =
  high_ground :: bool
  cover_availability :: "jsstring option"
  urban_terrain :: bool

record address =
  country :: "jsstring option"
  country_code :: "jsstring jsprop"

record weather =
  avg_temp_c :: "jsnum option"
  total_precipitation_mm :: "jsnum option"
  avg_wind_speed_max_kmh :: "jsnum option"
  max_wind_gust_kmh :: "jsnum option"

record location =
  radius_km :: "jsnum jsprop"

record terrain_data =
  terrain_analysis :: "terrain_analysis option"
  place_name :: "jsstring option"
  address :: "address option"
  weather :: "weather option"
  location :: "location option"
  elevation :: "jsnum option"

record analysis_data = reply_head +
  coordinates :: "coordinates option"
  terrain_data :: "terrain_data option"
  data_scenario :: "jsstring jsprop"
  models_used :: "jsstring list option"
  strategy :: "jsstring jsprop"

record chat_data = reply_head +
  response :: jsstring
  data_mode :: "jsstring option"

record upload_details =
  chunks :: jsnum
  file_size_kb :: jsnum

record upload_data = reply_head +
  details :: upload_details

record jsfile =
  name :: jsstring

text \<open>
  What one \<open>fetch\<close> followed by \<open>response.json()\<close> gives. \<open>NoResponse\<close>: the \<open>fetch\<close>
  throws (no connection, the abort after the timeout). Otherwise there is a response,
  with \<open>response.ok = ok\<close>: \<open>BadBody ok body\<close> when its body, the text \<open>body\<close>, is not
  JSON, so that \<open>response.json()\<close> throws; \<open>JsonNull ok\<close> when the body is the JSON
  \<open>null\<close>, of which reading any property throws; \<open>Json ok data\<close> when the body is
  the JSON object \<open>data\<close> (a body that is a JSON number, string, boolean or array reads
  like an object with none of the properties). The backend is a function from the
  request to its answer;
  the requests a handler issues are returned in order beside the new state. One run of
  a handler is modelled, from its call to its return: other handlers that run during
  an \<open>await\<close>, and the effect of lines 143-147, which calls \<^verbatim>\<open>checkHealth\<close> when the
  number of messages has changed, are not part of it.
\<close>

datatype 'a reply = NoResponse | BadBody bool jsstring | JsonNull bool | Json bool 'a

record backend =
  analyze_coordinates :: "jsstring \<Rightarrow> jsstring \<Rightarrow> analysis_data reply"
  chat :: "jsstring \<Rightarrow> chat_data reply"
  upload :: "jsfile \<Rightarrow> upload_data reply"
  get_health :: "health reply"

datatype request =
    GetHealth
  | PostChat jsstring
  | PostAnalyzeCoordinates jsstring jsstring
  | PostUpload jsfile

section \<open>\<^verbatim>\<open>handleSendMessage\<close> (App.js, lines 437-574)\<close>

text \<open>
  \<open>String.prototype.trim\<close> removes the white space and line terminators of ECMAScript
  from both ends: TAB, LF, VT, FF, CR, SP, NBSP, U+1680, U+2000 to U+200A, LS, PS,
  U+202F, U+205F, U+3000 and U+FEFF.
\<close>

definition isWhiteSpace :: "jschar \<Rightarrow> bool" where
  "isWhiteSpace c =
     ((9 \<le> c \<and> c \<le> 13) \<or> c = 32 \<or> c = 160 \<or> c = 5760 \<or> (8192 \<le> c \<and> c \<le> 8202)
      \<or> c = 8232 \<or> c = 8233 \<or> c = 8239 \<or> c = 8287 \<or> c = 12288 \<or> c = 65279)"

definition trim :: "jsstring \<Rightarrow> jsstring" where
  "trim s = rev (dropWhile isWhiteSpace (rev (dropWhile isWhiteSpace s)))"

text \<open>
  \<^verbatim>\<open>/\d{1,3}\.\d{4,}/\<close> (line 446): one to three digits, taken greedily, a full stop
  (code unit 46) and at least four digits. \<open>\d\<close> is an ASCII digit.
\<close>

definition isDigit :: "jschar \<Rightarrow> bool" where
  "isDigit c = (48 \<le> c \<and> c \<le> 57)"

definition coord_with :: "nat \<Rightarrow> jsstring \<Rightarrow> bool" where
  \<comment> \<open>\<open>n\<close> digits, the full stop, four digits\<close>
  "coord_with n s =
     (n + 5 \<le> length s \<and> list_all isDigit (take n s) \<and> take 1 (drop n s) = [46]
      \<and> list_all isDigit (take 4 (drop (Suc n) s)))"

definition coord_at :: "jschar option \<Rightarrow> jsstring \<Rightarrow> unit option" where
  "coord_at prev s = (if list_ex (\<lambda>n. coord_with n s) [3, 2, 1] then Some () else None)"

definition coordPattern_test :: "jsstring \<Rightarrow> bool" where
  "coordPattern_test s = (regex_search coord_at None 0 s \<noteq> None)"

text \<open>The Beaufort number in a template literal: \<open>null\<close> prints as \<open>null\<close>.\<close>

definition beaufortStr :: "host \<Rightarrow> int option \<Rightarrow> jsstring" where
  "beaufortStr h b = (case b of None \<Rightarrow> js ''null'' | Some n \<Rightarrow> numToString h (Finite (of_int n)))"

definition windStr :: "host \<Rightarrow> jsnum option \<Rightarrow> jsstring" where
  \<comment> \<open>\<open>avgWindStr\<close> and \<open>gustStr\<close> (lines 497-498)\<close>
  "windStr h kmh =
     (case kmh of
        Some k \<Rightarrow> numToString h k @ js '' km/h (Bft '' @ beaufortStr h (kmhToBeaufort kmh) @ js '')''
      | None \<Rightarrow> js ''N/A'')"

definition orZero :: "jsnum option \<Rightarrow> jsnum" where
  \<comment> \<open>\<open>x || 0\<close> on a number or nullish: the falsy numbers are 0 and NaN\<close>
  "orZero x =
     (case x of
        None \<Rightarrow> Finite 0
      | Some v \<Rightarrow> if v = Finite 0 \<or> v = NaN then Finite 0 else v)"

definition emptyWeather :: weather where
  \<comment> \<open>the object \<open>{}\<close> of \<open>data.terrain_data.weather || {}\<close>\<close>
  "emptyWeather = \<lparr>avg_temp_c = None, total_precipitation_mm = None,
     avg_wind_speed_max_kmh = None, max_wind_gust_kmh = None\<rparr>"

definition weatherLine :: "host \<Rightarrow> weather \<Rightarrow> jsstring" where
  \<comment> \<open>lines 499-502; 176 is the degree sign, 10 the line feed\<close>
  "weatherLine h w =
     (case avg_temp_c w of
        Some t \<Rightarrow>
          js ''- Weather (7d): '' @ numToString h t @ [176] @ js ''C avg, ''
            @ numToString h (orZero (total_precipitation_mm w)) @ js ''mm precip'' @ [10]
            @ js ''- Wind (7d): avg '' @ windStr h (avg_wind_speed_max_kmh w)
            @ js '', gusts '' @ windStr h (max_wind_gust_kmh w) @ [10]
      | None \<Rightarrow> [])"

definition template :: "jsstring jsprop \<Rightarrow> jsstring" where
  \<comment> \<open>a string property in a template literal\<close>
  "template x = (case x of Undefined \<Rightarrow> js ''undefined'' | Null \<Rightarrow> js ''null'' | Val s \<Rightarrow> s)"

definition templateNum :: "host \<Rightarrow> jsnum jsprop \<Rightarrow> jsstring" where
  \<comment> \<open>a number property in a template literal\<close>
  "templateNum h x =
     (case x of Undefined \<Rightarrow> js ''undefined'' | Null \<Rightarrow> js ''null'' | Val n \<Rightarrow> numToString h n)"

definition toNumber :: "jsnum jsprop \<Rightarrow> jsnum" where
  \<comment> \<open>a number property as an operand of arithmetic: \<open>undefined\<close> is NaN, \<open>null\<close> is 0\<close>
  "toNumber x = (case x of Undefined \<Rightarrow> NaN | Null \<Rightarrow> Finite 0 | Val n \<Rightarrow> n)"

definition orElse :: "jsstring option \<Rightarrow> jsstring \<Rightarrow> jsstring" where
  \<comment> \<open>\<open>x || y\<close> for a string or nullish \<open>x\<close>: the empty string is falsy\<close>
  "orElse x y = (case x of None \<Rightarrow> y | Some s \<Rightarrow> if s = [] then y else s)"

definition countryLine :: "address \<Rightarrow> jsstring" where
  \<comment> \<open>line 511: the line is there when \<open>address.country\<close> is a non-empty string\<close>
  "countryLine addr =
     (case country addr of
        None \<Rightarrow> []
      | Some c \<Rightarrow>
          if c = [] then []
          else js ''Country: '' @ c @ js '' ('' @ template (country_code addr) @ js '')'' @ [10])"

fun join :: "jsstring \<Rightarrow> jsstring list \<Rightarrow> jsstring" where
  "join sep [] = []"
| "join sep [x] = x"
| "join sep (x # y # ys) = x @ sep @ join sep (y # ys)"

definition coordStr :: "host \<Rightarrow> jsnum \<Rightarrow> jsnum \<Rightarrow> jsstring" where
  \<comment> \<open>line 470, for numbers \<open>lat\<close> and \<open>lon\<close>\<close>
  "coordStr h la lo = toFixed h la 6 @ js '', '' @ toFixed h lo 6"

definition elevationStr :: "host \<Rightarrow> jsnum option \<Rightarrow> jsstring" where
  \<comment> \<open>line 516\<close>
  "elevationStr h e = (case e of Some v \<Rightarrow> toFixed h v 1 @ js ''m'' | None \<Rightarrow> js ''Unknown'')"

definition yesNo :: "bool \<Rightarrow> jsstring" where
  "yesNo b = (if b then js ''YES'' else js ''NO'')"

text \<open>
  The text of lines 470-524. \<open>None\<close> is a \<open>TypeError\<close>: one of the unguarded reads
  found \<open>null\<close> or \<open>undefined\<close>. No state is set between line 467 and line 527, so
  that it does not matter which of them throws first.
\<close>

definition tacticalText :: "host \<Rightarrow> analysis_data \<Rightarrow> jsstring option" where
  \<comment> \<open>9552 and 9472 are the box-drawing rules, 178 the superscript two\<close>
  "tacticalText h data =
     (case coordinates data of None \<Rightarrow> None | Some c \<Rightarrow>
      case lat c of None \<Rightarrow> None | Some la \<Rightarrow>
      case lon c of None \<Rightarrow> None | Some lo \<Rightarrow>
      case terrain_data data of None \<Rightarrow> None | Some td \<Rightarrow>
      case location td of None \<Rightarrow> None | Some loc \<Rightarrow>
      case models_used data of None \<Rightarrow> None | Some models \<Rightarrow>
      case terrain_analysis td of None \<Rightarrow> None | Some terrain \<Rightarrow>
      case cover_availability terrain of None \<Rightarrow> None | Some cover \<Rightarrow>
        Some
          (let placeName = orElse (place_name td) (coordStr h la lo);
               addr = (case address td of
                         Some a \<Rightarrow> a
                       | None \<Rightarrow> \<lparr>country = None, country_code = Undefined\<rparr>);
               w = (case weather td of Some x \<Rightarrow> x | None \<Rightarrow> emptyWeather)
           in replicate 59 9552 @ [10]
              @ js ''COORDINATE-BASED TACTICAL ANALYSIS'' @ [10]
              @ replicate 59 9552 @ [10, 10]
              @ js ''Location: '' @ placeName @ [10]
              @ js ''Coordinates: '' @ coordStr h la lo @ [10]
              @ countryLine addr
              @ js ''Analysis Area: '' @ templateNum h (radius_km loc) @ js '' km radius (~''
              @ toFixed h (circleArea h (toNumber (radius_km loc))) 1 @ js '' km'' @ [178]
              @ js '')'' @ [10]
              @ js ''Scenario: '' @ template (data_scenario data) @ [10]
              @ js ''Analysis Method: '' @ join (js '' > '') models @ [10, 10]
              @ js ''Quick Terrain Assessment:'' @ [10]
              @ js ''- Elevation: '' @ elevationStr h (elevation td) @ [10]
              @ js ''- High Ground: '' @ yesNo (high_ground terrain) @ [10]
              @ js ''- Cover: '' @ toUpperCase h cover @ [10]
              @ js ''- Urban: '' @ yesNo (urban_terrain terrain) @ [10]
              @ weatherLine h w @ [10]
              @ replicate 60 9472 @ [10, 10]
              @ template (strategy data) @ [10, 10]
              @ replicate 60 9472 @ [10]
              @ js ''Data: Real terrain from OpenStreetMap + Open-Meteo Elevation API + Nominatim''))"

definition tacticalResponse :: "jsstring \<Rightarrow> message" where
  \<comment> \<open>lines 504-526, for the text of the message\<close>
  "tacticalResponse t =
     \<lparr>role = Assistant, mtext = t, isError = None, mode = Some (js ''coordinate_tactical'')\<rparr>"

definition errorMessage :: "jsstring jsprop \<Rightarrow> message" where
  \<comment> \<open>lines 529-533 and 556-560: \<open>data.error\<close> in a template literal\<close>
  "errorMessage e = \<lparr>role = System, mtext = js ''Error: '' @ template e, isError = Some True, mode = None\<rparr>"

definition connectionError :: message where
  \<comment> \<open>the \<open>catch\<close> clause, lines 565-569, which every throw of lines 450-563 reaches\<close>
  "connectionError = \<lparr>role = System, mtext = js ''Connection error. Check backend status.'',
     isError = Some True, mode = None\<rparr>"

definition botResponse :: "chat_data \<Rightarrow> message" where
  "botResponse data = \<lparr>role = Assistant, mtext = response data, isError = None, mode = data_mode data\<rparr>"

definition appendMessage :: "message \<Rightarrow> app \<Rightarrow> app" where
  \<comment> \<open>\<open>setMessages(prev => [...prev, m])\<close>\<close>
  "appendMessage m st = st\<lparr>messages := messages st @ [m]\<rparr>"

definition handleSendMessage :: "host \<Rightarrow> backend \<Rightarrow> app \<Rightarrow> app \<times> request list" where
  "handleSendMessage h b st =
     (if trim (inputValue st) = [] then (st, [])
      else
        (let userMessage = \<lparr>role = User, mtext = inputValue st, isError = None, mode = None\<rparr>;
             st1 = st\<lparr>messages := messages st @ [userMessage], inputValue := [], isThinking := True\<rparr>;
             hasCoordinates = coordPattern_test (inputValue st)
         in if hasCoordinates then
              (let st2 =
                 (case analyze_coordinates b (mtext userMessage) (scenario st) of
                    Json ok data \<Rightarrow>
                      if ok \<and> success data then
                        (case tacticalText h data of
                           Some t \<Rightarrow> appendMessage (tacticalResponse t) st1
                         | None \<Rightarrow> appendMessage connectionError st1)
                      else appendMessage (errorMessage (error data)) st1
                  | _ \<Rightarrow> appendMessage connectionError st1)
               in (st2\<lparr>isThinking := False\<rparr>,
                   [PostAnalyzeCoordinates (mtext userMessage) (scenario st)]))
            else
              (let st2 =
                 (case chat b (mtext userMessage) of
                    Json ok data \<Rightarrow>
                      if ok \<and> success data then appendMessage (botResponse data) st1
                      else appendMessage (errorMessage (error data)) st1
                  | _ \<Rightarrow> appendMessage connectionError st1)
               in (st2\<lparr>isThinking := False\<rparr>, [PostChat (mtext userMessage)]))))"

text \<open>\<open>String.prototype.includes\<close>: \<open>sub\<close> occurs in \<open>s\<close> as a run of code units.\<close>

fun str_includes :: "jsstring \<Rightarrow> jsstring \<Rightarrow> bool" where
  "str_includes [] sub = (sub = [])"
| "str_includes (c # cs) sub = (take (length sub) (c # cs) = sub \<or> str_includes cs sub)"

section \<open>Example inputs\<close>

text \<open>
  Concrete inputs at which the theorems below are instantiated. \<open>exampleHost\<close> stands
  in for the runtime: it prints every number as \<open>#\<close>, computes no area and maps the
  ASCII letters only. \<open>dmsExample\<close> is \<open>48\<degree>51'24"N 2\<degree>21'08"E\<close>.
\<close>

definition asciiLower :: "jschar \<Rightarrow> jschar" where
  "asciiLower c = (if 65 \<le> c \<and> c \<le> 90 then c + 32 else c)"

definition asciiUpper :: "jschar \<Rightarrow> jschar" where
  "asciiUpper c = (if 97 \<le> c \<and> c \<le> 122 then c - 32 else c)"

definition exampleHost :: host where
  "exampleHost = \<lparr>numToString = (\<lambda>n. js ''#''), toFixed = (\<lambda>n d. js ''#''), circleArea = (\<lambda>r. r),
     toUpperCase = map asciiUpper, toLowerCase = map asciiLower\<rparr>"

definition dmsExample :: jsstring where
  "dmsExample = js ''48'' @ [176] @ js ''51'' @ [39] @ js ''24'' @ [34] @ js ''N 2'' @ [176]
     @ js ''21'' @ [39] @ js ''08'' @ [34] @ js ''E''"

definition exampleApp :: "jsstring \<Rightarrow> app" where
  "exampleApp input = \<lparr>messages = [], inputValue = input, uploadedFile = None, isUploading = False,
     isThinking = False, systemHealth = None, showHealth = False,
     scenario = js ''Tactical analysis request''\<rparr>"

definition exampleAnalysis :: "bool \<Rightarrow> jsstring jsprop \<Rightarrow> jsstring option \<Rightarrow> analysis_data" where
  \<comment> \<open>an answer of \<open>/analyze_coordinates\<close> without elevation and without weather, with the
      given \<open>success\<close>, \<open>error\<close> and \<open>terrain_analysis.cover_availability\<close>\<close>
  "exampleAnalysis ok err cover =
     \<lparr>success = ok, error = err,
      coordinates = Some \<lparr>lat = Some (Finite 48.8566), lon = Some (Finite 2.3522)\<rparr>,
      terrain_data =
        Some \<lparr>terrain_analysis = Some \<lparr>high_ground = False, cover_availability = cover,
                                      urban_terrain = True\<rparr>,
              place_name = Some (js ''Paris''),
              address = Some \<lparr>country = Some (js ''France''), country_code = Null\<rparr>,
              weather = None,
              location = Some \<lparr>radius_km = Val (Finite 2)\<rparr>, elevation = None\<rparr>,
      data_scenario = Val (js ''defensive''), models_used = Some [js ''OSM'', js ''LLM''],
      strategy = Val (js ''Hold.'')\<rparr>"

definition exampleChat :: "bool \<Rightarrow> jsstring jsprop \<Rightarrow> chat_data" where
  "exampleChat ok err = \<lparr>success = ok, error = err, response = js ''Roger.'', data_mode = None\<rparr>"

definition exampleBackend :: "analysis_data reply \<Rightarrow> chat_data reply \<Rightarrow> backend" where
  \<comment> \<open>a backend with the given answers of \<open>/analyze_coordinates\<close> and \<open>/chat\<close>\<close>
  "exampleBackend ra rc =
     \<lparr>analyze_coordinates = (\<lambda>m s. ra), chat = (\<lambda>m. rc), upload = (\<lambda>f. NoResponse),
      get_health = NoResponse\<rparr>"

section \<open>\<^verbatim>\<open>checkHealth\<close>, \<^verbatim>\<open>uploadDocument\<close> and \<^verbatim>\<open>handleFileUpload\<close> (App.js, lines 149-160, 217-278, 364-435)\<close>

text \<open>
  \<^verbatim>\<open>checkHealth\<close> stores the JSON answer of \<open>/health\<close>, whatever \<open>response.ok\<close> is
  (\<open>None\<close> is \<open>null\<close>, the initial value of \<open>systemHealth\<close> too), or the error object of
  its \<open>catch\<close> clause. The handlers call it without awaiting it;
  the model runs it at the place of the call.
\<close>

definition checkHealth :: "backend \<Rightarrow> app \<Rightarrow> app" where
  "checkHealth b st =
     st\<lparr>systemHealth :=
          (case get_health b of
             Json ok data \<Rightarrow> Some data
           | JsonNull ok \<Rightarrow> None
           | _ \<Rightarrow> Some \<lparr>status = js ''error'',
                       health_message = Some (js ''Cannot connect to backend server'')\<rparr>)\<rparr>"

definition uploadingMsg :: message where
  \<comment> \<open>lines 218-222\<close>
  "uploadingMsg = \<lparr>role = System, mtext = js ''Processing document...'', isError = Some False,
     mode = None\<rparr>"

definition connectionFailed :: message where
  \<comment> \<open>lines 269-273\<close>
  "connectionFailed = \<lparr>role = System, mtext = js ''Connection failed.'', isError = Some True,
     mode = None\<rparr>"

definition indexedMessage :: "host \<Rightarrow> jsfile \<Rightarrow> upload_data \<Rightarrow> message" where
  \<comment> \<open>lines 246-250; 10003 is the check mark\<close>
  "indexedMessage h file data =
     \<lparr>role = System,
      mtext = [10003] @ js '' Indexed: '' @ name file @ [10]
        @ js ''Chunks: '' @ numToString h (chunks (details data)) @ js '' | Size: ''
        @ numToString h (file_size_kb (details data)) @ js ''KB'' @ [10, 10]
        @ js ''Ready for queries.'',
      isError = Some False, mode = None\<rparr>"

definition dropProcessingDocument :: "app \<Rightarrow> app" where
  \<comment> \<open>\<open>setMessages(prev => prev.filter(msg => msg.text !== 'Processing document...'))\<close>\<close>
  "dropProcessingDocument st =
     st\<lparr>messages := filter (\<lambda>msg. mtext msg \<noteq> js ''Processing document...'') (messages st)\<rparr>"

definition uploadDocument :: "host \<Rightarrow> backend \<Rightarrow> jsfile \<Rightarrow> bool \<Rightarrow> app \<Rightarrow> (bool \<times> app) \<times> request list" where
  "uploadDocument h b file showCompletion st =
     (let st1 = (if showCompletion then appendMessage uploadingMsg st else st);
          st2 = st1\<lparr>isUploading := True\<rparr>
      in case upload b file of
           Json ok data \<Rightarrow>
             (let st3 = dropProcessingDocument st2
              in if ok \<and> success data then
                   (let st4 = st3\<lparr>uploadedFile := Some (name file)\<rparr>;
                        st5 = (if showCompletion then appendMessage (indexedMessage h file data) st4
                               else st4);
                        st6 = checkHealth b st5
                    in ((True, st6\<lparr>isUploading := False\<rparr>), [PostUpload file, GetHealth]))
                 else
                   ((False, (appendMessage (errorMessage (error data)) st3)\<lparr>isUploading := False\<rparr>),
                    [PostUpload file]))
         | _ \<Rightarrow>
             ((False, (appendMessage connectionFailed (dropProcessingDocument st2))\<lparr>isUploading := False\<rparr>),
              [PostUpload file]))"

definition endsWith :: "jsstring \<Rightarrow> jsstring \<Rightarrow> bool" where
  \<comment> \<open>\<open>String.prototype.endsWith\<close>\<close>
  "endsWith s ext = (length ext \<le> length s \<and> drop (length s - length ext) s = ext)"

definition allowedTypes :: "jsstring list" where
  "allowedTypes = [js ''.pdf'', js ''.jpg'', js ''.jpeg'', js ''.png'', js ''.bmp'', js ''.tiff'']"

definition imageExtensions :: "jsstring list" where
  "imageExtensions = [js ''.jpg'', js ''.jpeg'', js ''.png'', js ''.bmp'', js ''.tiff'']"

definition hasExtension :: "host \<Rightarrow> jsstring list \<Rightarrow> jsfile \<Rightarrow> bool" where
  \<comment> \<open>\<open>exts.some(ext => file.name.toLowerCase().endsWith(ext))\<close>\<close>
  "hasExtension h exts file = list_ex (\<lambda>ext. endsWith (toLowerCase h (name file)) ext) exts"

definition invalidFiles :: "host \<Rightarrow> jsfile list \<Rightarrow> jsfile list" where
  \<comment> \<open>lines 369-371\<close>
  "invalidFiles h files = filter (\<lambda>file. \<not> hasExtension h allowedTypes file) files"

definition invalidTypeMsg :: "jsfile list \<Rightarrow> message" where
  \<comment> \<open>lines 374-378\<close>
  "invalidTypeMsg invalid =
     \<lparr>role = System,
      mtext = js ''Invalid file type(s): '' @ join (js '', '') (map name invalid) @ [10]
        @ js ''Accepted: PDF, JPG, PNG, BMP, TIFF'',
      isError = Some True, mode = None\<rparr>"

definition imageInfoMsg :: message where
  \<comment> \<open>lines 390-394; 8505 and 65039 are the information sign, 34 the double quote\<close>
  "imageInfoMsg =
     \<lparr>role = System,
      mtext = [8505, 65039] @ js '' Image files are processed via OCR for document analysis.''
        @ [10, 10]
        @ js ''For tactical terrain analysis, provide coordinates in your message (e.g., ''
        @ [34] @ js ''Analyze defensive positions at 48.8566, 2.3522'' @ [34] @ js '')'',
      isError = Some False, mode = None\<rparr>"

definition countStr :: "host \<Rightarrow> nat \<Rightarrow> jsstring" where
  \<comment> \<open>a count in a template literal\<close>
  "countStr h n = numToString h (Finite (of_nat n))"

definition batchUploadingMsg :: "host \<Rightarrow> nat \<Rightarrow> message" where
  \<comment> \<open>lines 405-409\<close>
  "batchUploadingMsg h n =
     \<lparr>role = System,
      mtext = js ''Processing '' @ countStr h n @ js '' documents...'' @ [10] @ js ''Please wait...'',
      isError = Some False, mode = None\<rparr>"

definition batchSummaryMsg :: "host \<Rightarrow> nat \<Rightarrow> nat \<Rightarrow> nat \<Rightarrow> message" where
  \<comment> \<open>lines 423-427\<close>
  "batchSummaryMsg h successCount failCount n =
     \<lparr>role = System,
      mtext = [10003] @ js '' Batch Upload Complete'' @ [10, 10]
        @ js ''Success: '' @ countStr h successCount @ js '' | Failed: '' @ countStr h failCount
        @ [10, 10] @ js ''Ready for queries.'',
      isError = Some (failCount = n), mode = None\<rparr>"

text \<open>The loop of lines 415-419, with its two counters.\<close>

fun uploadEach :: "host \<Rightarrow> backend \<Rightarrow> jsfile list \<Rightarrow> nat \<Rightarrow> nat \<Rightarrow> app
    \<Rightarrow> (nat \<times> nat \<times> app) \<times> request list" where
  "uploadEach h b [] successCount failCount st = ((successCount, failCount, st), [])"
| "uploadEach h b (file # files) successCount failCount st =
     (case uploadDocument h b file False st of
        ((ok, st'), reqs) \<Rightarrow>
          (case uploadEach h b files (if ok then successCount + 1 else successCount)
                  (if ok then failCount else failCount + 1) st' of
             (res, reqs') \<Rightarrow> (res, reqs @ reqs')))"

text \<open>
  The result of \<^verbatim>\<open>handleFileUpload\<close> is the new state, the requests issued, and
  whether the file input was reset (\<open>event.target.value = ''\<close>).
\<close>

definition handleFileUpload :: "host \<Rightarrow> backend \<Rightarrow> jsfile list \<Rightarrow> app \<Rightarrow> app \<times> request list \<times> bool" where
  "handleFileUpload h b files st =
     (if length files = 0 then (st, [], False)
      else if length (invalidFiles h files) > 0 then
        (appendMessage (invalidTypeMsg (invalidFiles h files)) st, [], True)
      else
        (let firstFile = hd files;
             isImage = hasExtension h imageExtensions firstFile
         in if isImage then
              (case uploadDocument h b firstFile True (appendMessage imageInfoMsg st) of
                 ((ok, st'), reqs) \<Rightarrow> (st', reqs, True))
            else if length files > 1 then
              (case uploadEach h b files 0 0 (appendMessage (batchUploadingMsg h (length files)) st) of
                 ((successCount, failCount, st'), reqs) \<Rightarrow>
                   (let st1 = st'\<lparr>messages :=
                                 filter (\<lambda>msg. \<not> str_includes (mtext msg) (js ''Processing''))
                                   (messages st')\<rparr>;
                        st2 = appendMessage (batchSummaryMsg h successCount failCount (length files)) st1
                    in (checkHealth b st2, reqs @ [GetHealth], True)))
            else
              (case uploadDocument h b (hd files) True st of
                 ((ok, st'), reqs) \<Rightarrow> (st', reqs, True))))"

section \<open>The Terrain Cache of the specification\<close>

text \<open>
  Modelled from the spec: the Terrain Cache (sections 3 and 4.8 of the specification)
  belongs to the backend, whose code is not among the source files. A \<open>CacheEntry\<close> holds
  the bundle and \<open>created_at\<close>; the time to live is one hour, counted in seconds. The
  cache maps the identity of an \<open>AnalysisArea\<close> (its rounded centre and radius, given
  by \<open>area_key\<close>) to its entry. \<open>analyze\<close> takes the clock reading \<open>now\<close> and the pipeline
  Fetcher+Fusion+Elevation+Weather as \<open>fetch\<close>; it returns the entry, whether the
  pipeline ran, and the cache afterwards.
\<close>

record 'v cache_entry =
  cached_bundle :: "'v"
  created_at :: nat

definition ttl :: nat where
  \<comment> \<open>Modelled from the spec: \<open>ttl=1h\<close>, in seconds\<close>
  "ttl = 3600"

definition fresh :: "nat \<Rightarrow> 'v cache_entry \<Rightarrow> bool" where
  \<comment> \<open>Modelled from the spec: not expired, \<open>age < 1 hour\<close>\<close>
  "fresh now e = (now < created_at e + ttl)"

definition analyze :: "('a \<Rightarrow> 'k) \<Rightarrow> ('a \<Rightarrow> nat \<Rightarrow> 'v) \<Rightarrow> ('k \<rightharpoonup> 'v cache_entry) \<Rightarrow> 'a \<Rightarrow> nat
    \<Rightarrow> 'v cache_entry \<times> bool \<times> ('k \<rightharpoonup> 'v cache_entry)" where
  \<comment> \<open>Modelled from the spec: the lookup-or-fetch contract of section 4.8\<close>
  "analyze area_key fetch cache area now =
     (case cache (area_key area) of
        Some e \<Rightarrow>
          if fresh now e then (e, False, cache)
          else (let e' = \<lparr>cached_bundle = fetch area now, created_at = now\<rparr>
                in (e', True, cache(area_key area \<mapsto> e')))
      | None \<Rightarrow>
          (let e' = \<lparr>cached_bundle = fetch area now, created_at = now\<rparr>
           in (e', True, cache(area_key area \<mapsto> e'))))"

section \<open>The Scenario Detector of the specification\<close>

text \<open>
  Modelled from the spec: the Scenario Detector (section 4.7 of the specification)
  belongs to the backend, whose code is not among the source files, and so do its
  keyword sets. The keyword sets and the test whether a keyword matches the message
  are parameters. The score of a class is the number of its keywords that match; the
  detector returns \<open>Reconnaissance\<close> when no keyword matches, and otherwise the first
  class in the order defensive, offensive, stability, reconnaissance with the highest
  score.
\<close>

datatype scenario_class = Defensive | Offensive | Stability | Reconnaissance

definition keyword_score :: "('w \<Rightarrow> 'm \<Rightarrow> bool) \<Rightarrow> (scenario_class \<Rightarrow> 'w list) \<Rightarrow> 'm \<Rightarrow> scenario_class \<Rightarrow> nat" where
  \<comment> \<open>Modelled from the spec: the keyword score of a class for a message\<close>
  "keyword_score matches keywords msg c = length (filter (\<lambda>w. matches w msg) (keywords c))"

fun pick_first_best :: "(scenario_class \<Rightarrow> nat) \<Rightarrow> scenario_class list \<Rightarrow> scenario_class \<Rightarrow> scenario_class" where
  \<comment> \<open>Modelled from the spec: a later class replaces the best one only with a higher score\<close>
  "pick_first_best score [] best = best"
| "pick_first_best score (c # cs) best =
     pick_first_best score cs (if score best < score c then c else best)"

definition detect_scenario :: "('w \<Rightarrow> 'm \<Rightarrow> bool) \<Rightarrow> (scenario_class \<Rightarrow> 'w list) \<Rightarrow> 'm \<Rightarrow> scenario_class" where
  \<comment> \<open>Modelled from the spec: highest score, default reconnaissance, ties by priority\<close>
  "detect_scenario matches keywords msg =
     (let score = keyword_score matches keywords msg
      in if score Defensive = 0 \<and> score Offensive = 0 \<and> score Stability = 0
            \<and> score Reconnaissance = 0
         then Reconnaissance
         else pick_first_best score [Offensive, Stability, Reconnaissance] Defensive)"

fun priority_rank :: "scenario_class \<Rightarrow> nat" where
  \<comment> \<open>Modelled from the spec: defensive > offensive > stability > reconnaissance\<close>
  "priority_rank Defensive = 0"
| "priority_rank Offensive = 1"
| "priority_rank Stability = 2"
| "priority_rank Reconnaissance = 3"

definition exampleKeywords :: "scenario_class \<Rightarrow> string list" where
  \<comment> \<open>keyword sets for the examples; the backend's own sets are not in the sources\<close>
  "exampleKeywords c =
     (case c of
        Defensive \<Rightarrow> [''defend'', ''engagement area'']
      | Offensive \<Rightarrow> [''breach'', ''attack'']
      | Stability \<Rightarrow> [''patrol'', ''civil'']
      | Reconnaissance \<Rightarrow> [''recon'', ''observe''])"

fun occurs :: "'a list \<Rightarrow> 'a list \<Rightarrow> bool" where
  \<comment> \<open>the keyword occurs in the message, for the examples\<close>
  "occurs w [] = (w = [])"
| "occurs w (c # cs) = (take (length w) (c # cs) = w \<or> occurs w cs)"

section \<open>Properties of the Beaufort conversion\<close>

lemma kmhToBeaufort_Some_range:
  "\<exists>n. kmhToBeaufort (Some k) = Some n \<and> 0 \<le> n \<and> n \<le> 12"
  by (simp add: kmhToBeaufort_def)

lemma kmhToBeaufort_mono_Some:
  assumes "js_le a b"
  shows "the (kmhToBeaufort (Some a)) \<le> the (kmhToBeaufort (Some b))"
proof (cases a)
  case (Finite x)
  with assms show ?thesis
    by (cases b) (auto simp: kmhToBeaufort_def)
next
  case PosInfinity
  with assms show ?thesis
    by (cases b) (auto simp: kmhToBeaufort_def)
next
  case NegInfinity
  with assms show ?thesis
    by (cases b) (auto simp: kmhToBeaufort_def)
next
  case NaN
  with assms show ?thesis by simp
qed

text \<open>
  Claim C6. \<^verbatim>\<open>kmhToBeaufort\<close> returns \<open>null\<close> exactly when its argument is nullish;
  on every number (NaN and the infinities included) it returns an integer between 0
  and 12; and it is monotone: for numbers \<open>a <= b\<close> (the comparison of JavaScript),
  the Beaufort number of \<open>a\<close> is at most that of \<open>b\<close>.
\<close>

theorem kmhToBeaufort_null_range_monotone:
  "(kmhToBeaufort kmh = None \<longleftrightarrow> kmh = None)
   \<and> (\<exists>n. kmhToBeaufort (Some k) = Some n \<and> 0 \<le> n \<and> n \<le> 12)
   \<and> (js_le a b \<longrightarrow>
        (\<exists>m n. kmhToBeaufort (Some a) = Some m \<and> kmhToBeaufort (Some b) = Some n \<and> m \<le> n))"
proof (intro conjI impI)
  show "kmhToBeaufort kmh = None \<longleftrightarrow> kmh = None"
    by (cases kmh) (simp_all add: kmhToBeaufort_def)
  show "\<exists>n. kmhToBeaufort (Some k) = Some n \<and> 0 \<le> n \<and> n \<le> 12"
    by (rule kmhToBeaufort_Some_range)
next
  assume le: "js_le a b"
  obtain m where m: "kmhToBeaufort (Some a) = Some m"
    using kmhToBeaufort_Some_range [of a] by blast
  obtain n where n: "kmhToBeaufort (Some b) = Some n"
    using kmhToBeaufort_Some_range [of b] by blast
  from kmhToBeaufort_mono_Some [OF le] m n have "m \<le> n" by simp
  with m n show "\<exists>m n. kmhToBeaufort (Some a) = Some m \<and> kmhToBeaufort (Some b) = Some n \<and> m \<le> n"
    by blast
qed

theorem kmhToBeaufort_null_range_monotone_witness:
  "kmhToBeaufort None = None
   \<and> kmhToBeaufort (Some (Finite 28.5)) = Some 5
   \<and> js_le (Finite 11) (Finite 11.5)
   \<and> kmhToBeaufort (Some (Finite 11)) = Some 2
   \<and> kmhToBeaufort (Some (Finite 11.5)) = Some 3
   \<and> (2::int) \<le> 3"
  using kmhToBeaufort_null_range_monotone [of None "Finite 28.5" "Finite 11" "Finite 11.5"]
  by (simp add: kmhToBeaufort_def)

section \<open>Properties of the inline formatter\<close>

lemma lazy_dots_nonempty: "lazy_dots k s = Some g \<Longrightarrow> g \<noteq> []"
  by (induction s arbitrary: g) (auto split: if_splits)

lemma regex_search_here:
  "regex_search here prev i s = Some (j, m) \<Longrightarrow> \<exists>p t. here p t = Some m"
  by (induction s arbitrary: prev i) (auto split: option.splits)

lemma bold_at_length: "bold_at p t = Some (a, g) \<Longrightarrow> 5 \<le> length a"
  by (cases "(p, t)" rule: bold_at.cases)
     (auto split: if_splits option.splits dest: lazy_dots_nonempty simp: Suc_le_eq)

lemma italic_at_length: "italic_at p t = Some (a, g) \<Longrightarrow> 3 \<le> length a"
  by (cases "(p, t)" rule: italic_at.cases)
     (auto split: if_splits option.splits dest: lazy_dots_nonempty simp: Suc_le_eq)

lemma boldMatch_length: "boldMatch r = Some m \<Longrightarrow> 5 \<le> length (m0 m)"
  unfolding boldMatch_def to_match_def
  by (auto dest!: regex_search_here dest: bold_at_length)

lemma italicMatch_length: "italicMatch r = Some m \<Longrightarrow> 3 \<le> length (m0 m)"
  unfolding italicMatch_def to_match_def
  by (auto dest!: regex_search_here dest: italic_at_length)

lemma pick_match_cases:
  "pick_match b i = Some (ty, m) \<Longrightarrow> (ty = Bold \<and> b = Some m) \<or> (ty = Italic \<and> i = Some m)"
  by (cases "(b, i)" rule: pick_match.cases) (auto split: if_splits)

lemma pick_match_positive:
  assumes "pick_match (boldMatch r) (italicMatch r) = Some (ty, m)"
  shows "0 < length (m0 m)"
  using pick_match_cases [OF assms] boldMatch_length [of r m] italicMatch_length [of r m]
  by auto

lemma render_step_decreases:
  assumes "render_step s = Inr s'" and "remaining s \<noteq> []"
  shows "length (remaining s') < length (remaining s)"
proof -
  from assms(1) obtain ty m where
    pm: "pick_match (boldMatch (remaining s)) (italicMatch (remaining s)) = Some (ty, m)"
    and r: "remaining s' = drop (index m + length (m0 m)) (remaining s)"
    by (auto simp: render_step_def Let_def split: option.splits prod.splits if_splits)
  from pick_match_positive [OF pm] assms(2) r show ?thesis
    by simp
qed

lemma render_loop_terminates: "\<exists>ps. render_loop s = Some ps"
proof (induction "length (remaining s)" arbitrary: s rule: less_induct)
  case less
  show ?case
  proof (cases "remaining s = []")
    case True
    then show ?thesis by (subst render_loop.simps) simp
  next
    case False
    show ?thesis
    proof (cases "render_step s")
      case (Inl ps)
      with False show ?thesis by (subst render_loop.simps) simp
    next
      case (Inr s')
      from render_step_decreases [OF Inr False] less.hyps [of s']
      obtain ps where "render_loop s' = Some ps" by blast
      with Inr False show ?thesis by (subst render_loop.simps) simp
    qed
  qed
qed

lemma render_loop_nonempty:
  "remaining s \<noteq> [] \<Longrightarrow> render_loop s = Some ps \<Longrightarrow> ps \<noteq> []"
proof (induction "length (remaining s)" arbitrary: s rule: less_induct)
  case less
  show ?case
  proof (cases "render_step s")
    case (Inl qs)
    with less.prems have "ps = qs"
      by (subst (asm) render_loop.simps) simp
    moreover from Inl have "qs \<noteq> []"
      by (auto simp: render_step_def Let_def split: option.splits prod.splits)
    ultimately show ?thesis by simp
  next
    case (Inr s')
    with less.prems have run: "render_loop s' = Some ps"
      by (subst (asm) render_loop.simps) simp
    from Inr have grown: "parts s' \<noteq> []"
      by (auto simp: render_step_def Let_def split: option.splits prod.splits if_splits)
    show ?thesis
    proof (cases "remaining s' = []")
      case True
      with run have "ps = parts s'" by (subst (asm) render_loop.simps) simp
      with grown show ?thesis by simp
    next
      case False
      from render_step_decreases [OF Inr less.prems(1)] less.hyps [of s'] False run
      show ?thesis by blast
    qed
  qed
qed

text \<open>
  Claim C8. \<^verbatim>\<open>renderInlineFormatting\<close> returns on every string; on a non-empty
  string it returns a non-empty list of parts; and every run of the loop body on a
  non-empty \<open>remaining\<close> either leaves the loop or makes \<open>remaining\<close> strictly shorter
  (a bold match has at least five code units, an italic match at least three).
\<close>

theorem renderInlineFormatting_terminates:
  "(\<exists>res. renderInlineFormatting text = Some res)
   \<and> (text \<noteq> [] \<longrightarrow> (\<exists>ps. renderInlineFormatting text = Some (RParts ps) \<and> ps \<noteq> []))
   \<and> (remaining s \<noteq> [] \<longrightarrow>
        (case render_step s of
           Inl ps \<Rightarrow> True
         | Inr s' \<Rightarrow> length (remaining s') < length (remaining s)))"
proof (intro conjI impI)
  obtain ps where ps: "render_loop \<lparr>remaining = text, parts = [], key = 0\<rparr> = Some ps"
    using render_loop_terminates by blast
  then show "\<exists>res. renderInlineFormatting text = Some res"
    by (simp add: renderInlineFormatting_def)
  assume ne: "text \<noteq> []"
  with ps render_loop_nonempty [of "\<lparr>remaining = text, parts = [], key = 0\<rparr>" ps]
  have "ps \<noteq> []" by simp
  with ps ne show "\<exists>ps. renderInlineFormatting text = Some (RParts ps) \<and> ps \<noteq> []"
    by (simp add: renderInlineFormatting_def)
next
  assume "remaining s \<noteq> []"
  then show "case render_step s of Inl ps \<Rightarrow> True
             | Inr s' \<Rightarrow> length (remaining s') < length (remaining s)"
    by (auto split: sum.splits dest: render_step_decreases)
qed

theorem renderInlineFormatting_terminates_witness:
  "renderInlineFormatting (js ''a **b** c'') =
     Some (RParts [Span 0 (js ''a ''), Strong 1 (js ''b''), Span 2 (js '' c'')])
   \<and> length (remaining \<lparr>remaining = js '' c'', parts = [Span 0 (js ''a ''), Strong 1 (js ''b'')], key = 2\<rparr>)
       < length (remaining \<lparr>remaining = js ''a **b** c'', parts = [], key = 0\<rparr>)"
proof -
  let ?s = "\<lparr>remaining = js ''a **b** c'', parts = [], key = 0\<rparr>"
  let ?s' = "\<lparr>remaining = js '' c'', parts = [Span 0 (js ''a ''), Strong 1 (js ''b'')], key = 2\<rparr>"
  have ne: "remaining ?s \<noteq> []"
    by (simp add: js_def)
  have step: "render_step ?s = Inr ?s'"
    by code_simp
  have run: "renderInlineFormatting (js ''a **b** c'') =
     Some (RParts [Span 0 (js ''a ''), Strong 1 (js ''b''), Span 2 (js '' c'')])"
    by code_simp
  from renderInlineFormatting_terminates [of "js ''a **b** c''" ?s]
  have "remaining ?s \<noteq> [] \<longrightarrow>
        (case render_step ?s of Inl ps \<Rightarrow> True
         | Inr s' \<Rightarrow> length (remaining s') < length (remaining ?s))"
    by (rule conjunct2 [THEN conjunct2])
  from this [THEN mp, OF ne] have "length (remaining ?s') < length (remaining ?s)"
    unfolding step sum.case .
  with run show ?thesis
    by (rule conjI)
qed

section \<open>Properties of \<^verbatim>\<open>handleSendMessage\<close>\<close>

lemma str_includes_iff: "str_includes s sub \<longleftrightarrow> (\<exists>pre post. s = pre @ sub @ post)"
proof (induction s)
  case Nil
  show ?case by simp
next
  case (Cons c cs)
  show ?case
  proof
    assume "str_includes (c # cs) sub"
    then consider "take (length sub) (c # cs) = sub" | "str_includes cs sub" by auto
    then show "\<exists>pre post. c # cs = pre @ sub @ post"
    proof cases
      case 1
      then have "c # cs = [] @ sub @ drop (length sub) (c # cs)"
        by (metis append_Nil append_take_drop_id)
      then show ?thesis by blast
    next
      case 2
      with Cons.IH obtain pre post where "cs = pre @ sub @ post" by blast
      then have "c # cs = (c # pre) @ sub @ post" by simp
      then show ?thesis by blast
    qed
  next
    assume "\<exists>pre post. c # cs = pre @ sub @ post"
    then obtain pre post where eq: "c # cs = pre @ sub @ post" by blast
    show "str_includes (c # cs) sub"
    proof (cases pre)
      case Nil
      with eq have "take (length sub) (c # cs) = sub" by simp
      then show ?thesis by simp
    next
      case (Cons p pre')
      with eq have "cs = pre' @ sub @ post" by simp
      with Cons.IH have "str_includes cs sub" by blast
      then show ?thesis by simp
    qed
  qed
qed

lemma str_includes_skip: "str_includes r sub \<Longrightarrow> str_includes (a @ r) sub"
  unfolding str_includes_iff
proof -
  assume "\<exists>pre post. r = pre @ sub @ post"
  then obtain pre post where "r = pre @ sub @ post" by blast
  then have "a @ r = (a @ pre) @ sub @ post" by simp
  then show "\<exists>pre post. a @ r = pre @ sub @ post" by blast
qed

lemma str_includes_suffix: "str_includes (a @ sub) sub"
  unfolding str_includes_iff by (rule exI [of _ a], rule exI [of _ "[]"]) simp

lemma dropWhile_all_iff: "(\<forall>c\<in>set (dropWhile P s). P c) \<longleftrightarrow> (\<forall>c\<in>set s. P c)"
  by (induction s) auto

lemma trim_empty_iff: "trim s = [] \<longleftrightarrow> (\<forall>c\<in>set s. isWhiteSpace c)"
  by (simp add: trim_def dropWhile_eq_Nil_conv dropWhile_all_iff)

lemma handleSendMessage_analyze:
  assumes "trim (inputValue st) \<noteq> []" and "coordPattern_test (inputValue st)"
  shows "messages (fst (handleSendMessage h b st)) =
    messages st @
      [\<lparr>role = User, mtext = inputValue st, isError = None, mode = None\<rparr>,
       (case analyze_coordinates b (inputValue st) (scenario st) of
          Json ok data \<Rightarrow>
            if ok \<and> success data then
              (case tacticalText h data of
                 Some t \<Rightarrow> tacticalResponse t
               | None \<Rightarrow> connectionError)
            else errorMessage (error data)
        | _ \<Rightarrow> connectionError)]"
  using assms
  by (simp add: handleSendMessage_def Let_def appendMessage_def split: reply.splits option.splits)

lemma handleSendMessage_chat:
  assumes "trim (inputValue st) \<noteq> []" and "\<not> coordPattern_test (inputValue st)"
  shows "messages (fst (handleSendMessage h b st)) =
    messages st @
      [\<lparr>role = User, mtext = inputValue st, isError = None, mode = None\<rparr>,
       (case chat b (inputValue st) of
          Json ok data \<Rightarrow>
            if ok \<and> success data then botResponse data else errorMessage (error data)
        | _ \<Rightarrow> connectionError)]"
  using assms
  by (simp add: handleSendMessage_def Let_def appendMessage_def split: reply.splits)




text \<open>
  Claim C7 (as amended). Whenever the backend answers \<open>/analyze_coordinates\<close> or
  \<open>/chat\<close> (whichever the message is sent to) with a JSON object and no success
  (\<open>response.ok\<close> false or \<open>data.success\<close> false), the conversation afterwards is the
  one before, the user's message, and a system message with \<open>isError\<close> true whose text
  is \<open>Error: \<close> followed by \<open>data.error\<close> as a template literal prints it: the error
  string itself when there is one, so that the text contains it, \<open>null\<close> or \<open>undefined\<close>
  otherwise. Whenever there is no JSON object (the request fails, or the body is not
  JSON or is \<open>null\<close>, whatever \<open>response.ok\<close> is), the conversation afterwards is the one
  before, the user's message, and the system message with \<open>isError\<close> true and the text
  \<open>Connection error. Check backend status.\<close>
\<close>

theorem handleSendMessage_error_surfaced:
  assumes "trim (inputValue st) \<noteq> []"
  shows
    "((coordPattern_test (inputValue st)
         \<and> analyze_coordinates b (inputValue st) (scenario st) = Json ok adata
         \<and> \<not> (ok \<and> success adata) \<and> error adata = e)
       \<or> (\<not> coordPattern_test (inputValue st)
         \<and> chat b (inputValue st) = Json ok cdata
         \<and> \<not> (ok \<and> success cdata) \<and> error cdata = e)
      \<longrightarrow> messages (fst (handleSendMessage h b st)) =
            messages st @
              [\<lparr>role = User, mtext = inputValue st, isError = None, mode = None\<rparr>,
               \<lparr>role = System,
                mtext = js ''Error: ''
                  @ (case e of Undefined \<Rightarrow> js ''undefined'' | Null \<Rightarrow> js ''null'' | Val s \<Rightarrow> s),
                isError = Some True, mode = None\<rparr>]
          \<and> (\<forall>s. e = Val s \<longrightarrow>
                str_includes (mtext (last (messages (fst (handleSendMessage h b st))))) s))
     \<and> ((coordPattern_test (inputValue st)
           \<and> (\<forall>ok data. analyze_coordinates b (inputValue st) (scenario st) \<noteq> Json ok data))
         \<or> (\<not> coordPattern_test (inputValue st)
           \<and> (\<forall>ok data. chat b (inputValue st) \<noteq> Json ok data))
        \<longrightarrow> messages (fst (handleSendMessage h b st)) =
              messages st @
                [\<lparr>role = User, mtext = inputValue st, isError = None, mode = None\<rparr>,
                 \<lparr>role = System, mtext = js ''Connection error. Check backend status.'',
                  isError = Some True, mode = None\<rparr>])"
proof (intro conjI impI)
  assume json: "(coordPattern_test (inputValue st)
         \<and> analyze_coordinates b (inputValue st) (scenario st) = Json ok adata
         \<and> \<not> (ok \<and> success adata) \<and> error adata = e)
       \<or> (\<not> coordPattern_test (inputValue st)
         \<and> chat b (inputValue st) = Json ok cdata
         \<and> \<not> (ok \<and> success cdata) \<and> error cdata = e)"
  then show msgs: "messages (fst (handleSendMessage h b st)) =
            messages st @
              [\<lparr>role = User, mtext = inputValue st, isError = None, mode = None\<rparr>,
               \<lparr>role = System,
                mtext = js ''Error: ''
                  @ (case e of Undefined \<Rightarrow> js ''undefined'' | Null \<Rightarrow> js ''null'' | Val s \<Rightarrow> s),
                isError = Some True, mode = None\<rparr>]"
  proof (elim disjE conjE)
    assume "coordPattern_test (inputValue st)"
      and "analyze_coordinates b (inputValue st) (scenario st) = Json ok adata"
      and "\<not> (ok \<and> success adata)" and "error adata = e"
    then show ?thesis
      by (auto simp add: handleSendMessage_analyze [OF assms] errorMessage_def template_def)
  next
    assume "\<not> coordPattern_test (inputValue st)"
      and "chat b (inputValue st) = Json ok cdata"
      and "\<not> (ok \<and> success cdata)" and "error cdata = e"
    then show ?thesis
      by (auto simp add: handleSendMessage_chat [OF assms] errorMessage_def template_def)
  qed
  show "\<forall>s. e = Val s \<longrightarrow>
      str_includes (mtext (last (messages (fst (handleSendMessage h b st))))) s"
  proof (intro allI impI)
    fix s
    assume "e = Val s"
    moreover have "str_includes (js ''Error: '' @ s) s"
      by (rule str_includes_suffix)
    ultimately show "str_includes (mtext (last (messages (fst (handleSendMessage h b st))))) s"
      by (simp add: msgs)
  qed
next
  assume "(coordPattern_test (inputValue st)
           \<and> (\<forall>ok data. analyze_coordinates b (inputValue st) (scenario st) \<noteq> Json ok data))
         \<or> (\<not> coordPattern_test (inputValue st)
           \<and> (\<forall>ok data. chat b (inputValue st) \<noteq> Json ok data))"
  then show "messages (fst (handleSendMessage h b st)) =
              messages st @
                [\<lparr>role = User, mtext = inputValue st, isError = None, mode = None\<rparr>,
                 \<lparr>role = System, mtext = js ''Connection error. Check backend status.'',
                  isError = Some True, mode = None\<rparr>]"
  proof (elim disjE conjE)
    assume "coordPattern_test (inputValue st)"
      and "\<forall>ok data. analyze_coordinates b (inputValue st) (scenario st) \<noteq> Json ok data"
    then show ?thesis
      by (cases "analyze_coordinates b (inputValue st) (scenario st)")
        (auto simp add: handleSendMessage_analyze [OF assms] connectionError_def)
  next
    assume "\<not> coordPattern_test (inputValue st)"
      and "\<forall>ok data. chat b (inputValue st) \<noteq> Json ok data"
    then show ?thesis
      by (cases "chat b (inputValue st)")
        (auto simp add: handleSendMessage_chat [OF assms] connectionError_def)
  qed
qed

theorem handleSendMessage_error_surfaced_witness:
  "messages (fst (handleSendMessage exampleHost
       (exampleBackend (Json False (exampleAnalysis False (Val (js ''No coordinates found'')) None))
          (BadBody False (js ''Internal Server Error'')))
       (exampleApp (js ''48.8566, 2.3522'')))) =
     [\<lparr>role = User, mtext = js ''48.8566, 2.3522'', isError = None, mode = None\<rparr>,
      \<lparr>role = System, mtext = js ''Error: '' @ js ''No coordinates found'', isError = Some True,
       mode = None\<rparr>]
   \<and> str_includes
        (mtext (last (messages (fst (handleSendMessage exampleHost
           (exampleBackend (Json False (exampleAnalysis False (Val (js ''No coordinates found'')) None))
              (BadBody False (js ''Internal Server Error'')))
           (exampleApp (js ''48.8566, 2.3522'')))))))
        (js ''No coordinates found'')
   \<and> messages (fst (handleSendMessage exampleHost
       (exampleBackend (Json False (exampleAnalysis False (Val (js ''No coordinates found'')) None))
          (BadBody False (js ''Internal Server Error'')))
       (exampleApp (js ''hello'')))) =
     [\<lparr>role = User, mtext = js ''hello'', isError = None, mode = None\<rparr>,
      \<lparr>role = System, mtext = js ''Connection error. Check backend status.'', isError = Some True,
       mode = None\<rparr>]"
proof -
  let ?data = "exampleAnalysis False (Val (js ''No coordinates found'')) None"
  let ?b = "exampleBackend (Json False ?data) (BadBody False (js ''Internal Server Error''))"
  let ?st = "exampleApp (js ''48.8566, 2.3522'')"
  let ?st' = "exampleApp (js ''hello'')"
  have nonblank: "trim (inputValue ?st) \<noteq> []"
    by (simp add: trim_def isWhiteSpace_def exampleApp_def js_def)
  have nonblank': "trim (inputValue ?st') \<noteq> []"
    by (simp add: trim_def isWhiteSpace_def exampleApp_def js_def)
  have coords: "coordPattern_test (inputValue ?st)"
    by code_simp
  have nocoords: "\<not> coordPattern_test (inputValue ?st')"
    by code_simp
  have refused: "(coordPattern_test (inputValue ?st)
         \<and> analyze_coordinates ?b (inputValue ?st) (scenario ?st) = Json False ?data
         \<and> \<not> (False \<and> success ?data) \<and> error ?data = Val (js ''No coordinates found''))
       \<or> (\<not> coordPattern_test (inputValue ?st)
         \<and> chat ?b (inputValue ?st) = Json False (exampleChat False Undefined)
         \<and> \<not> (False \<and> success (exampleChat False Undefined))
         \<and> error (exampleChat False Undefined) = Val (js ''No coordinates found''))"
    using coords by (simp add: exampleBackend_def exampleAnalysis_def)
  have nojson: "(coordPattern_test (inputValue ?st')
           \<and> (\<forall>ok data. analyze_coordinates ?b (inputValue ?st') (scenario ?st') \<noteq> Json ok data))
         \<or> (\<not> coordPattern_test (inputValue ?st')
           \<and> (\<forall>ok data. chat ?b (inputValue ?st') \<noteq> Json ok data))"
    using nocoords by (simp add: exampleBackend_def)
  note r = handleSendMessage_error_surfaced [OF nonblank, of ?b False ?data
      "Val (js ''No coordinates found'')" "exampleChat False Undefined" exampleHost]
  note r' = handleSendMessage_error_surfaced [OF nonblank', of ?b False ?data Undefined
      "exampleChat False Undefined" exampleHost]
  from r refused have "messages (fst (handleSendMessage exampleHost ?b ?st)) =
      messages ?st @
        [\<lparr>role = User, mtext = inputValue ?st, isError = None, mode = None\<rparr>,
         \<lparr>role = System,
          mtext = js ''Error: ''
            @ (case Val (js ''No coordinates found'') of
                 Undefined \<Rightarrow> js ''undefined'' | Null \<Rightarrow> js ''null'' | Val s \<Rightarrow> s),
          isError = Some True, mode = None\<rparr>]"
    by blast
  then have 1: "messages (fst (handleSendMessage exampleHost ?b ?st)) =
      messages ?st @
        [\<lparr>role = User, mtext = inputValue ?st, isError = None, mode = None\<rparr>,
         \<lparr>role = System, mtext = js ''Error: '' @ js ''No coordinates found'', isError = Some True,
          mode = None\<rparr>]"
    by simp
  from r refused have 2: "str_includes
      (mtext (last (messages (fst (handleSendMessage exampleHost ?b ?st))))) (js ''No coordinates found'')"
    by blast
  from r' nojson have 3: "messages (fst (handleSendMessage exampleHost ?b ?st')) =
      messages ?st' @
        [\<lparr>role = User, mtext = inputValue ?st', isError = None, mode = None\<rparr>,
         \<lparr>role = System, mtext = js ''Connection error. Check backend status.'', isError = Some True,
          mode = None\<rparr>]"
    by blast
  from 1 2 3 show ?thesis
    by (simp add: exampleApp_def)
qed

text \<open>
  A response that is not ok and whose body is not JSON: the text of the appended
  message has nothing of the body. A JSON answer without success and without \<open>error\<close>:
  the text is \<open>Error: undefined\<close>.
\<close>

theorem handleSendMessage_error_surfaced_counterexample:
  "messages (fst (handleSendMessage exampleHost
       (exampleBackend (BadBody False (js ''Internal Server Error'')) NoResponse)
       (exampleApp (js ''48.8566, 2.3522'')))) =
     [\<lparr>role = User, mtext = js ''48.8566, 2.3522'', isError = None, mode = None\<rparr>,
      \<lparr>role = System, mtext = js ''Connection error. Check backend status.'', isError = Some True,
       mode = None\<rparr>]
   \<and> \<not> str_includes (js ''Connection error. Check backend status.'') (js ''Internal Server Error'')
   \<and> messages (fst (handleSendMessage exampleHost
       (exampleBackend NoResponse (Json True (exampleChat False Undefined)))
       (exampleApp (js ''hello'')))) =
     [\<lparr>role = User, mtext = js ''hello'', isError = None, mode = None\<rparr>,
      \<lparr>role = System, mtext = js ''Error: undefined'', isError = Some True, mode = None\<rparr>]"
proof (intro conjI)
  have nonblank: "trim (js ''48.8566, 2.3522'') \<noteq> []"
    by (simp add: trim_def isWhiteSpace_def js_def)
  have coords: "coordPattern_test (js ''48.8566, 2.3522'')"
    by code_simp
  from nonblank coords show "messages (fst (handleSendMessage exampleHost
       (exampleBackend (BadBody False (js ''Internal Server Error'')) NoResponse)
       (exampleApp (js ''48.8566, 2.3522'')))) =
     [\<lparr>role = User, mtext = js ''48.8566, 2.3522'', isError = None, mode = None\<rparr>,
      \<lparr>role = System, mtext = js ''Connection error. Check backend status.'', isError = Some True,
       mode = None\<rparr>]"
    by (simp add: handleSendMessage_def Let_def exampleBackend_def exampleApp_def
        appendMessage_def connectionError_def)
  show "\<not> str_includes (js ''Connection error. Check backend status.'') (js ''Internal Server Error'')"
    by code_simp
  have nonblank': "trim (js ''hello'') \<noteq> []"
    by (simp add: trim_def isWhiteSpace_def js_def)
  have nocoords: "\<not> coordPattern_test (js ''hello'')"
    by code_simp
  have undef: "js ''Error: '' @ js ''undefined'' = js ''Error: undefined''"
    by (simp add: js_def)
  from nonblank' nocoords show "messages (fst (handleSendMessage exampleHost
       (exampleBackend NoResponse (Json True (exampleChat False Undefined)))
       (exampleApp (js ''hello'')))) =
     [\<lparr>role = User, mtext = js ''hello'', isError = None, mode = None\<rparr>,
      \<lparr>role = System, mtext = js ''Error: undefined'', isError = Some True, mode = None\<rparr>]"
    by (simp add: handleSendMessage_def Let_def exampleBackend_def exampleApp_def
        appendMessage_def errorMessage_def template_def exampleChat_def undef)
qed

text \<open>
  Claim C9. If \<open>inputValue\<close> is empty or consists of white space only (the white space
  that \<open>trim\<close> removes), \<^verbatim>\<open>handleSendMessage\<close> leaves the whole component state as it
  is and issues no request.
\<close>

theorem handleSendMessage_blank_input:
  "(\<forall>c\<in>set (inputValue st). isWhiteSpace c) \<Longrightarrow> handleSendMessage h b st = (st, [])"
  by (simp add: handleSendMessage_def trim_empty_iff [symmetric])

theorem handleSendMessage_blank_input_witness:
  "handleSendMessage exampleHost (exampleBackend NoResponse NoResponse) (exampleApp [32, 9, 10, 160]) =
     (exampleApp [32, 9, 10, 160], [])"
proof -
  have "\<forall>c\<in>set (inputValue (exampleApp [32, 9, 10, 160])). isWhiteSpace c"
    by (simp add: exampleApp_def isWhiteSpace_def)
  then show ?thesis
    by (rule handleSendMessage_blank_input)
qed

text \<open>A message without a full stop is never sent to \<open>/analyze_coordinates\<close>.\<close>

lemma regex_search_suffix:
  "regex_search here prev i s = Some (j, m) \<Longrightarrow> \<exists>pre t p. s = pre @ t \<and> here p t = Some m"
proof (induction s arbitrary: prev i)
  case Nil
  then show ?case by auto
next
  case (Cons c cs)
  show ?case
  proof (cases "here prev (c # cs)")
    case (Some m')
    with Cons.prems have "here prev (c # cs) = Some m" by simp
    then have "c # cs = [] @ (c # cs) \<and> here prev (c # cs) = Some m" by simp
    then show ?thesis by blast
  next
    case None
    with Cons.prems have "regex_search here (Some c) (Suc i) cs = Some (j, m)" by simp
    from Cons.IH [OF this] obtain pre t p where "cs = pre @ t" and "here p t = Some m" by blast
    then have "c # cs = (c # pre) @ t \<and> here p t = Some m" by simp
    then show ?thesis by blast
  qed
qed

lemma coord_with_full_stop: "coord_with n t \<Longrightarrow> 46 \<in> set t"
proof -
  assume "coord_with n t"
  then have "take 1 (drop n t) = [46]" by (simp add: coord_with_def)
  then have "46 \<in> set (take 1 (drop n t))" by simp
  then show ?thesis by (meson in_set_dropD in_set_takeD)
qed

lemma coordPattern_needs_full_stop: "46 \<notin> set s \<Longrightarrow> \<not> coordPattern_test s"
proof
  assume no: "46 \<notin> set s" and "coordPattern_test s"
  then obtain j where "regex_search coord_at None 0 s = Some (j, ())"
    by (auto simp: coordPattern_test_def)
  from regex_search_suffix [OF this] obtain pre t p where s: "s = pre @ t" and "coord_at p t = Some ()"
    by blast
  then obtain n where "coord_with n t"
    by (auto simp: coord_at_def split: if_splits)
  then have "46 \<in> set t" by (rule coord_with_full_stop)
  with s no show False by simp
qed

text \<open>
  Claim C1 (the code departs from it). The test of line 447 accepts the decimal and the
  labelled example, and rejects the example in degrees, minutes and seconds, which has
  no full stop: \<^verbatim>\<open>handleSendMessage\<close> sends that message to \<open>/chat\<close>.
\<close>

theorem coordPattern_rejects_dms:
  "coordPattern_test (js ''48.8566, 2.3522'')
   \<and> coordPattern_test (js ''lat: 48.8566 lon: 2.3522'')
   \<and> \<not> coordPattern_test dmsExample
   \<and> snd (handleSendMessage h b (st\<lparr>inputValue := dmsExample\<rparr>)) = [PostChat dmsExample]"
proof (intro conjI)
  show "coordPattern_test (js ''48.8566, 2.3522'')"
    by code_simp
  show "coordPattern_test (js ''lat: 48.8566 lon: 2.3522'')"
    by code_simp
  show no: "\<not> coordPattern_test dmsExample"
    by code_simp
  have "trim dmsExample \<noteq> []"
    by (simp add: trim_def isWhiteSpace_def dmsExample_def js_def)
  with no show "snd (handleSendMessage h b (st\<lparr>inputValue := dmsExample\<rparr>)) = [PostChat dmsExample]"
    by (simp add: handleSendMessage_def Let_def)
qed

text \<open>The two markers of missing weather data: \<open>N/A\<close> for a wind field, no line without a temperature.\<close>

lemma weatherLine_unknown_markers:
  "windStr h None = js ''N/A''"
  "avg_temp_c w = None \<Longrightarrow> weatherLine h w = []"
  by (simp_all add: windStr_def weatherLine_def)

text \<open>
  Claim C2 (the code departs from it). With a temperature and no precipitation
  (\<open>total_precipitation_mm\<close> null), the weather line prints the number 0 before
  \<open>mm precip\<close>, exactly as it does for a measured precipitation of 0; the two wind
  fields, when null, print \<open>N/A\<close>.
\<close>

theorem weatherLine_null_precipitation_prints_zero:
  "weatherLine h \<lparr>avg_temp_c = Some (Finite 12.5), total_precipitation_mm = None,
       avg_wind_speed_max_kmh = None, max_wind_gust_kmh = None\<rparr> =
     js ''- Weather (7d): '' @ numToString h (Finite 12.5) @ [176] @ js ''C avg, ''
       @ numToString h (Finite 0) @ js ''mm precip'' @ [10]
       @ js ''- Wind (7d): avg '' @ js ''N/A'' @ js '', gusts '' @ js ''N/A'' @ [10]
   \<and> weatherLine h (w\<lparr>total_precipitation_mm := None\<rparr>) =
       weatherLine h (w\<lparr>total_precipitation_mm := Some (Finite 0)\<rparr>)"
  by (simp add: weatherLine_def orZero_def windStr_def split: option.splits)

section \<open>Properties of \<^verbatim>\<open>handleFileUpload\<close>\<close>

lemma join_includes_member: "x \<in> set xs \<Longrightarrow> str_includes (join sep xs) x"
proof (induction sep xs rule: join.induct)
  case (1 sep)
  then show ?case by simp
next
  case (2 sep y)
  then have "x = y" by simp
  then show ?case
    using str_includes_suffix [of "[]" x] by simp
next
  case (3 sep y z zs)
  show ?case
  proof (cases "x = y")
    case True
    have "str_includes (y @ sep @ join sep (z # zs)) y"
      unfolding str_includes_iff by (rule exI [of _ "[]"]) simp
    with True show ?thesis by simp
  next
    case False
    with 3 have "str_includes (join sep (z # zs)) x" by simp
    then have "str_includes (y @ sep @ join sep (z # zs)) x"
      by (intro str_includes_skip)
    then show ?thesis by simp
  qed
qed

lemma invalidTypeMsg_lists_name:
  assumes "file \<in> set invalid"
  shows "str_includes (mtext (invalidTypeMsg invalid)) (name file)"
proof -
  from assms have "name file \<in> set (map name invalid)" by simp
  then have "str_includes (join (js '', '') (map name invalid)) (name file)"
    by (rule join_includes_member)
  then obtain pre post where "join (js '', '') (map name invalid) = pre @ name file @ post"
    unfolding str_includes_iff by blast
  then have "mtext (invalidTypeMsg invalid) =
      (js ''Invalid file type(s): '' @ pre) @ name file
        @ (post @ [10] @ js ''Accepted: PDF, JPG, PNG, BMP, TIFF'')"
    by (simp add: invalidTypeMsg_def)
  then show ?thesis
    unfolding str_includes_iff by blast
qed

text \<open>
  Claim C10. If the name of some selected file, in lower case, ends in none of \<open>.pdf\<close>,
  \<open>.jpg\<close>, \<open>.jpeg\<close>, \<open>.png\<close>, \<open>.bmp\<close>, \<open>.tiff\<close>, then \<^verbatim>\<open>handleFileUpload\<close> only appends
  one system message, marked as an error, and resets the file input: it issues no
  request, for no file of the selection, and the text of the message contains the
  name of every such file.
\<close>

theorem handleFileUpload_rejects_selection:
  assumes "\<exists>file\<in>set files. \<not> hasExtension h allowedTypes file"
  shows "handleFileUpload h b files st =
           (st\<lparr>messages := messages st @ [invalidTypeMsg (invalidFiles h files)]\<rparr>, [], True)
         \<and> role (invalidTypeMsg (invalidFiles h files)) = System
         \<and> isError (invalidTypeMsg (invalidFiles h files)) = Some True
         \<and> (\<forall>file\<in>set files. \<not> hasExtension h allowedTypes file \<longrightarrow>
               str_includes (mtext (invalidTypeMsg (invalidFiles h files))) (name file))"
proof (intro conjI ballI impI)
  from assms obtain f where "f \<in> set files" and "\<not> hasExtension h allowedTypes f"
    by blast
  then have "f \<in> set (invalidFiles h files)"
    by (simp add: invalidFiles_def)
  then have "invalidFiles h files \<noteq> []"
    by auto
  moreover from \<open>f \<in> set files\<close> have "files \<noteq> []"
    by auto
  ultimately have "files \<noteq> []" and "invalidFiles h files \<noteq> []"
    by simp_all
  then show "handleFileUpload h b files st =
           (st\<lparr>messages := messages st @ [invalidTypeMsg (invalidFiles h files)]\<rparr>, [], True)"
    by (simp add: handleFileUpload_def appendMessage_def)
  show "role (invalidTypeMsg (invalidFiles h files)) = System"
    by (simp add: invalidTypeMsg_def)
  show "isError (invalidTypeMsg (invalidFiles h files)) = Some True"
    by (simp add: invalidTypeMsg_def)
next
  fix f
  assume "f \<in> set files" and "\<not> hasExtension h allowedTypes f"
  then have "f \<in> set (invalidFiles h files)"
    by (simp add: invalidFiles_def)
  then show "str_includes (mtext (invalidTypeMsg (invalidFiles h files))) (name f)"
    by (rule invalidTypeMsg_lists_name)
qed

theorem handleFileUpload_rejects_selection_witness:
  "handleFileUpload exampleHost (exampleBackend NoResponse NoResponse)
       [\<lparr>name = js ''a.PDF''\<rparr>, \<lparr>name = js ''b.exe''\<rparr>] (exampleApp []) =
     ((exampleApp [])\<lparr>messages := messages (exampleApp []) @
         [invalidTypeMsg (invalidFiles exampleHost [\<lparr>name = js ''a.PDF''\<rparr>, \<lparr>name = js ''b.exe''\<rparr>])]\<rparr>,
      [], True)
   \<and> invalidFiles exampleHost [\<lparr>name = js ''a.PDF''\<rparr>, \<lparr>name = js ''b.exe''\<rparr>] = [\<lparr>name = js ''b.exe''\<rparr>]
   \<and> str_includes
        (mtext (invalidTypeMsg (invalidFiles exampleHost [\<lparr>name = js ''a.PDF''\<rparr>, \<lparr>name = js ''b.exe''\<rparr>])))
        (name \<lparr>name = js ''b.exe''\<rparr>)"
proof -
  let ?files = "[\<lparr>name = js ''a.PDF''\<rparr>, \<lparr>name = js ''b.exe''\<rparr>]"
  have bad: "\<not> hasExtension exampleHost allowedTypes \<lparr>name = js ''b.exe''\<rparr>"
    by code_simp
  have inv: "invalidFiles exampleHost ?files = [\<lparr>name = js ''b.exe''\<rparr>]"
    by code_simp
  from bad have some: "\<exists>file\<in>set ?files. \<not> hasExtension exampleHost allowedTypes file"
    by simp
  note r = handleFileUpload_rejects_selection [OF some, of "exampleBackend NoResponse NoResponse" "exampleApp []"]
  from r have 1: "handleFileUpload exampleHost (exampleBackend NoResponse NoResponse) ?files (exampleApp []) =
     ((exampleApp [])\<lparr>messages := messages (exampleApp []) @
         [invalidTypeMsg (invalidFiles exampleHost ?files)]\<rparr>, [], True)"
    by (rule conjunct1)
  from r have "\<forall>file\<in>set ?files. \<not> hasExtension exampleHost allowedTypes file \<longrightarrow>
      str_includes (mtext (invalidTypeMsg (invalidFiles exampleHost ?files))) (name file)"
    by (rule conjunct2 [THEN conjunct2, THEN conjunct2])
  then have "\<not> hasExtension exampleHost allowedTypes \<lparr>name = js ''b.exe''\<rparr> \<longrightarrow>
      str_includes (mtext (invalidTypeMsg (invalidFiles exampleHost ?files))) (name \<lparr>name = js ''b.exe''\<rparr>)"
    by (rule bspec) simp
  from this [THEN mp, OF bad] have 2:
    "str_includes (mtext (invalidTypeMsg (invalidFiles exampleHost ?files))) (name \<lparr>name = js ''b.exe''\<rparr>)" .
  from 1 inv 2 show ?thesis
    by (intro conjI)
qed

section \<open>Properties of the Terrain Cache of the specification\<close>

text \<open>
  Claim C4. After a first \<open>analyze\<close> call that returned the entry \<open>e1\<close>, a second call
  for an area of the same identity made while the age of \<open>e1\<close> is less than one hour
  returns \<open>e1\<close> itself, with its \<open>created_at\<close>, runs no fetch and leaves the cache as it
  is; a second call made once the age has reached one hour runs the fetch, stores the
  new entry under the same key, and the new \<open>created_at\<close>, the time of the call, is
  later than the old one. When the first call ran the fetch, \<open>created_at\<close> of \<open>e1\<close> is
  the time of the first call, so that the age is the time since the first call.
\<close>

theorem analyze_cache_ttl:
  assumes "analyze area_key fetch c0 area t1 = (e1, f1, c1)" and "area_key area' = area_key area"
  shows "(f1 \<longrightarrow> created_at e1 = t1)
       \<and> (t2 < created_at e1 + ttl \<longrightarrow> analyze area_key fetch c1 area' t2 = (e1, False, c1))
       \<and> (created_at e1 + ttl \<le> t2 \<longrightarrow>
            analyze area_key fetch c1 area' t2 =
              (\<lparr>cached_bundle = fetch area' t2, created_at = t2\<rparr>, True,
               c1(area_key area \<mapsto> \<lparr>cached_bundle = fetch area' t2, created_at = t2\<rparr>))
            \<and> created_at e1 < t2)"
proof -
  from assms(1) have stored: "c1 (area_key area) = Some e1"
    by (auto simp: analyze_def Let_def split: option.splits if_splits)
  from assms(1) have stamp: "f1 \<longrightarrow> created_at e1 = t1"
    by (auto simp: analyze_def Let_def split: option.splits if_splits)
  have hit: "t2 < created_at e1 + ttl \<longrightarrow> analyze area_key fetch c1 area' t2 = (e1, False, c1)"
    using stored assms(2) by (simp add: analyze_def fresh_def)
  have miss: "created_at e1 + ttl \<le> t2 \<longrightarrow>
            analyze area_key fetch c1 area' t2 =
              (\<lparr>cached_bundle = fetch area' t2, created_at = t2\<rparr>, True,
               c1(area_key area \<mapsto> \<lparr>cached_bundle = fetch area' t2, created_at = t2\<rparr>))
            \<and> created_at e1 < t2"
    using stored assms(2) by (simp add: analyze_def fresh_def Let_def ttl_def)
  from stamp hit miss show ?thesis by blast
qed

theorem analyze_cache_ttl_witness:
  "analyze (\<lambda>a. a) (\<lambda>a t. a + t) Map.empty (7::nat) 100 =
     (\<lparr>cached_bundle = 107, created_at = 100\<rparr>, True, [7 \<mapsto> \<lparr>cached_bundle = 107, created_at = 100\<rparr>])
   \<and> analyze (\<lambda>a. a) (\<lambda>a t. a + t) [7 \<mapsto> \<lparr>cached_bundle = 107, created_at = 100\<rparr>] 7 3699 =
       (\<lparr>cached_bundle = 107, created_at = 100\<rparr>, False, [7 \<mapsto> \<lparr>cached_bundle = 107, created_at = 100\<rparr>])
   \<and> analyze (\<lambda>a. a) (\<lambda>a t. a + t) [7 \<mapsto> \<lparr>cached_bundle = 107, created_at = 100\<rparr>] 7 3700 =
       (\<lparr>cached_bundle = 3707, created_at = 3700\<rparr>, True,
        [7 \<mapsto> \<lparr>cached_bundle = 107, created_at = 100\<rparr>, 7 \<mapsto> \<lparr>cached_bundle = 3707, created_at = 3700\<rparr>])"
proof -
  let ?e = "\<lparr>cached_bundle = 107::nat, created_at = 100\<rparr>"
  have first: "analyze (\<lambda>a. a) (\<lambda>a t. a + t) Map.empty (7::nat) 100 = (?e, True, [7 \<mapsto> ?e])"
    by (simp add: analyze_def Let_def)
  have same: "(\<lambda>a::nat. a) 7 = (\<lambda>a. a) 7"
    by simp
  note r = analyze_cache_ttl [OF first same]
  have early: "(3699::nat) < created_at ?e + ttl"
    by (simp add: ttl_def)
  have late: "created_at ?e + ttl \<le> (3700::nat)"
    by (simp add: ttl_def)
  from r [of 3699] early
  have hit: "analyze (\<lambda>a. a) (\<lambda>a t. a + t) [7 \<mapsto> ?e] 7 3699 = (?e, False, [7 \<mapsto> ?e])"
    by blast
  from r [of 3700] late
  have miss: "analyze (\<lambda>a. a) (\<lambda>a t. a + t) [7 \<mapsto> ?e] 7 3700 =
       (\<lparr>cached_bundle = 7 + 3700, created_at = 3700\<rparr>, True,
        [7 \<mapsto> ?e, 7 \<mapsto> \<lparr>cached_bundle = 7 + 3700, created_at = 3700\<rparr>])"
    by blast
  from first hit miss show ?thesis
    by simp
qed

section \<open>Properties of the Scenario Detector of the specification\<close>

text \<open>
  Claim C5. No class has a higher keyword score than the class the detector returns;
  when no keyword of any class matches, it returns \<open>Reconnaissance\<close>; and when some
  keyword matches, every class whose score equals that of the returned class comes at
  or after it in the order defensive, offensive, stability, reconnaissance.
\<close>

theorem detect_scenario_highest_score:
  "(let score = keyword_score matches keywords msg;
        r = detect_scenario matches keywords msg
    in (\<forall>c. score c \<le> score r)
       \<and> ((\<forall>c. score c = 0) \<longrightarrow> r = Reconnaissance)
       \<and> ((\<exists>c. 0 < score c) \<longrightarrow> (\<forall>c. score c = score r \<longrightarrow> priority_rank r \<le> priority_rank c)))"
proof -
  define score where "score = keyword_score matches keywords msg"
  define r where "r = detect_scenario matches keywords msg"
  have r: "r = (if score Defensive = 0 \<and> score Offensive = 0 \<and> score Stability = 0
                   \<and> score Reconnaissance = 0
                then Reconnaissance
                else pick_first_best score [Offensive, Stability, Reconnaissance] Defensive)"
    by (simp add: r_def score_def detect_scenario_def Let_def)
  have highest: "score c \<le> score r" for c
    unfolding r by (cases c) (auto split: if_splits)
  have default: "(\<forall>c. score c = 0) \<longrightarrow> r = Reconnaissance"
    unfolding r by simp
  have ties: "priority_rank r \<le> priority_rank c" if "\<exists>d. 0 < score d" and "score c = score r" for c
  proof -
    from that(1) obtain d where "0 < score d" by blast
    then have some: "\<not> (score Defensive = 0 \<and> score Offensive = 0 \<and> score Stability = 0
        \<and> score Reconnaissance = 0)"
      by (cases d) auto
    from that(2) show ?thesis
      unfolding r using some by (cases c) (auto split: if_splits)
  qed
  from highest default ties show ?thesis
    unfolding Let_def score_def [symmetric] r_def [symmetric] by blast
qed

theorem detect_scenario_highest_score_witness:
  "detect_scenario occurs exampleKeywords ''hold at the bridge'' = Reconnaissance
   \<and> detect_scenario occurs exampleKeywords ''defend the ridge, engagement area'' = Defensive
   \<and> detect_scenario occurs exampleKeywords ''where can we breach the obstacle belt'' = Offensive
   \<and> keyword_score occurs exampleKeywords ''defend, then attack'' Offensive
       = keyword_score occurs exampleKeywords ''defend, then attack''
           (detect_scenario occurs exampleKeywords ''defend, then attack'')
   \<and> priority_rank (detect_scenario occurs exampleKeywords ''defend, then attack'')
       \<le> priority_rank Offensive"
proof -
  have none: "\<forall>c. keyword_score occurs exampleKeywords ''hold at the bridge'' c = 0"
  proof
    fix c
    show "keyword_score occurs exampleKeywords ''hold at the bridge'' c = 0"
      by (cases c) (simp_all add: keyword_score_def exampleKeywords_def)
  qed
  from detect_scenario_highest_score [of occurs exampleKeywords "''hold at the bridge''"] none
  have 1: "detect_scenario occurs exampleKeywords ''hold at the bridge'' = Reconnaissance"
    unfolding Let_def by blast
  have 2: "detect_scenario occurs exampleKeywords ''defend the ridge, engagement area'' = Defensive"
    by code_simp
  have 3: "detect_scenario occurs exampleKeywords ''where can we breach the obstacle belt'' = Offensive"
    by code_simp
  have tie: "keyword_score occurs exampleKeywords ''defend, then attack'' Offensive
       = keyword_score occurs exampleKeywords ''defend, then attack''
           (detect_scenario occurs exampleKeywords ''defend, then attack'')"
    by code_simp
  have "0 < keyword_score occurs exampleKeywords ''defend, then attack'' Defensive"
    by code_simp
  then have some: "\<exists>c. 0 < keyword_score occurs exampleKeywords ''defend, then attack'' c"
    by blast
  from detect_scenario_highest_score [of occurs exampleKeywords "''defend, then attack''"] some tie
  have 4: "priority_rank (detect_scenario occurs exampleKeywords ''defend, then attack'')
       \<le> priority_rank Offensive"
    unfolding Let_def by blast
  from 1 2 3 tie 4 show ?thesis
    by (intro conjI)
qed

end
